theory Spec2Isabelle
  imports Complex_Main "HOL-Library.Sublist" "HOL-Library.Multiset"
begin

section \<open>Strings as the source uses them\<close>

text \<open>
  Identifiers, names and messages are JavaScript strings. They are modelled as
  \<^typ>\<open>string\<close>, one \<^typ>\<open>char\<close> per code unit, which covers the strings whose
  code units are below 256. The case mapping below is the one
  \<^verbatim>\<open>String.prototype.toUpperCase\<close> performs on ASCII text, so statements that depend on
  it carry the hypothesis \<open>ascii_only\<close>.
\<close>

definition ascii_only :: "string \<Rightarrow> bool" where
  "ascii_only d = list_all (\<lambda>c. (of_char c :: nat) < 128) d"

definition toUpperCase_char :: "char \<Rightarrow> char" where
  "toUpperCase_char c =
     (let n = (of_char c :: nat)
      in if 97 \<le> n \<and> n \<le> 122 then char_of (n - 32) else c)"

definition toUpperCase :: "string \<Rightarrow> string" where
  "toUpperCase d = map toUpperCase_char d"

text \<open>
  \<^verbatim>\<open>s.slice(start)\<close>: a negative start counts from the end and is clamped at the
  beginning of the string, a positive one is clamped at its end.
\<close>

definition slice :: "int \<Rightarrow> string \<Rightarrow> string" where
  "slice start d =
     (let n = int (length d);
          k = (if start < 0 then max (n + start) 0 else min start n)
      in drop (nat k) d)"

text \<open>JavaScript truthiness of a value read from the key-value store: \<^verbatim>\<open>null\<close> and the
  empty string are falsy.\<close>

definition truthy_str :: "string option \<Rightarrow> bool" where
  "truthy_str v = (case v of None \<Rightarrow> False | Some d \<Rightarrow> d \<noteq> [])"

section \<open>Pairing code (app/parent/pair-device.tsx)\<close>

text \<open>
  \<^verbatim>\<open>const code = id ? id.slice(-6).toUpperCase() : '000000';\<close>
\<close>

definition pairing_code :: "string option \<Rightarrow> string" where
  "pairing_code ident =
     (case ident of
        None \<Rightarrow> ''000000''
      | Some d \<Rightarrow> if d = [] then ''000000'' else toUpperCase (slice (- 6) d))"

text \<open>
  \<^verbatim>\<open>generatePairingCode\<close> reads \<^verbatim>\<open>device_id\<close> from the store and sets the two pieces of
  screen state, \<^verbatim>\<open>deviceId\<close> (\<^verbatim>\<open>id || ''\<close>) and \<^verbatim>\<open>pairingCode\<close>.
\<close>

definition generatePairingCode :: "(string \<rightharpoonup> string) \<Rightarrow> string \<times> string" where
  "generatePairingCode store =
     (let ident = store ''device_id''
      in ((case ident of None \<Rightarrow> [] | Some d \<Rightarrow> d), pairing_code ident))"

section \<open>The child device and its collaborators (child tracking screen)\<close>

text \<open>
  An awaited call of a collaborator (the OS permission and sensor providers, the backend)
  either rejects, which the source sees as a thrown exception, or resolves with a value.
\<close>

datatype 'a promise = Rejects | Resolves 'a

datatype permission_status = Granted | Denied | Undetermined

record coords =
  latitude :: real
  longitude :: real
  accuracy :: "real option"
  speed :: "real option"
  heading :: "real option"

text \<open>
  A contact as the OS enumerator returns it. Of a phone-number entry the source reads
  only \<^verbatim>\<open>number\<close> and of an e-mail entry only \<^verbatim>\<open>email\<close>, so an entry is modelled by
  that optional field.
\<close>

record os_contact =
  contact_id :: string
  contact_name :: "string option"
  phoneNumbers :: "string option list option"
  emails :: "string option list option"

text \<open>The record uploaded for a contact: \<^verbatim>\<open>{id, name, phoneNumbers, emails}\<close>.\<close>

datatype wire_contact = WireContact string string "string list" "string list"

record asset =
  asset_id :: string
  asset_filename :: string
  mediaType :: string
  creationTime :: real
  modificationTime :: real
  asset_width :: real
  asset_height :: real
  asset_duration :: real
  asset_location :: "coords option"

text \<open>The record uploaded for an asset: \<^verbatim>\<open>{id, filename, mediaType, creationTime,
  modificationTime, width, height, duration, location}\<close>.\<close>

datatype media_item =
  MediaItem string string string real real real real real "(real \<times> real) option"

text \<open>The JSON bodies of the three upload requests; the first component is \<^verbatim>\<open>device_id\<close>.\<close>

datatype payload =
    ContactsBatch string "wire_contact list"
  | MediaBatch string "media_item list"
  | LocationSample string real real "real option" "real option" "real option"

text \<open>The body of the registration request:
  \<^verbatim>\<open>{device_id, device_name, mode, parent_device_id}\<close>.\<close>

datatype registration = Registration string string string "string option"

datatype os_call =
    RequestForegroundPermissions
  | RequestBackgroundPermissions
  | RequestContactsPermissions
  | RequestMediaPermissions
  | StartLocationUpdates
  | StopLocationUpdates
  | GetContactsPermissions
  | GetContacts
  | GetMediaPermissions
  | GetAssets
  | GetCurrentPosition
  | IsTaskRegistered

text \<open>
  What the device does that is visible outside the function: calls of OS providers,
  alerts, console output, HTTP requests and navigation, in the order they happen.
\<close>

datatype event =
    Call os_call
  | Alert string string
  | ConsoleError string
  | ConsoleLog string
  | ConsoleLogCount string nat
  | HttpPost string payload
  | Fetch string registration
  | RouterReplace string

text \<open>
  The answers of the collaborators during one run. \<open>axios_post url body\<close> tells
  whether the request resolves; a rejected request is a transport failure.
\<close>

record os_env =
  requestForegroundPermissionsAsync :: "permission_status promise"
  requestBackgroundPermissionsAsync :: "permission_status promise"
  contacts_requestPermissionsAsync :: "permission_status promise"
  media_requestPermissionsAsync :: "permission_status promise"
  startLocationUpdatesAsync :: "unit promise"
  stopLocationUpdatesAsync :: "unit promise"
  contacts_getPermissionsAsync :: "permission_status promise"
  getContactsAsync :: "os_contact list promise"
  media_getPermissionsAsync :: "permission_status promise"
  getAssetsAsync :: "asset list promise"
  getCurrentPositionAsync :: "coords promise"
  axios_post :: "string \<Rightarrow> payload \<Rightarrow> bool"
  date_now :: nat

text \<open>
  The device: the key-value store (\<^verbatim>\<open>AsyncStorage\<close>; the reads of the tracking screen
  and of the background handler are taken to resolve, the calls of the registration
  screen may reject), the OS task registry entry of \<^verbatim>\<open>background-location-task\<close>, the
  trace of events, and the React state of the screens.
\<close>

record app =
  storage :: "string \<rightharpoonup> string"
  task_registered :: bool
  events :: "event list"
  locationEnabled :: bool
  isTracking :: bool
  lastSync :: "nat option"
  registering :: bool

definition emit :: "event \<Rightarrow> app \<Rightarrow> app" where
  "emit e s = s\<lparr>events := events s @ [e]\<rparr>"

subsection \<open>The three domain syncs\<close>

text \<open>
  \<^verbatim>\<open>name: contact.name || 'Unknown'\<close>,
  \<^verbatim>\<open>phoneNumbers: contact.phoneNumbers?.map((p) => p.number || '') || []\<close>, the same for
  e-mails.
\<close>

definition or_else :: "string option \<Rightarrow> string \<Rightarrow> string" where
  "or_else v dflt = (case v of None \<Rightarrow> dflt | Some x \<Rightarrow> if x = [] then dflt else x)"

definition flatten_field :: "string option list option \<Rightarrow> string list" where
  "flatten_field f = (case f of None \<Rightarrow> [] | Some es \<Rightarrow> map (\<lambda>e. or_else e []) es)"

definition to_wire_contact :: "os_contact \<Rightarrow> wire_contact" where
  "to_wire_contact c =
     WireContact (contact_id c) (or_else (contact_name c) ''Unknown'')
       (flatten_field (phoneNumbers c)) (flatten_field (emails c))"

definition syncContacts :: "os_env \<Rightarrow> string \<Rightarrow> app \<Rightarrow> app" where
  "syncContacts env deviceId s =
     (let s1 = emit (Call GetContactsPermissions) s
      in case contacts_getPermissionsAsync env of
           Rejects \<Rightarrow> emit (ConsoleError ''Error syncing contacts:'') s1
         | Resolves status \<Rightarrow>
             if status \<noteq> Granted then s1
             else
               let s2 = emit (Call GetContacts) s1
               in (case getContactsAsync env of
                    Rejects \<Rightarrow> emit (ConsoleError ''Error syncing contacts:'') s2
                  | Resolves data \<Rightarrow>
                      let contacts = map to_wire_contact data;
                          body = ContactsBatch deviceId contacts;
                          s3 = emit (HttpPost ''/api/contacts/batch'' body) s2
                      in if axios_post env ''/api/contacts/batch'' body
                         then emit (ConsoleLogCount ''Contacts synced:'' (length contacts)) s3
                         else emit (ConsoleError ''Error syncing contacts:'') s3))"

definition to_media_item :: "asset \<Rightarrow> media_item" where
  "to_media_item a =
     MediaItem (asset_id a) (asset_filename a) (mediaType a) (creationTime a)
       (modificationTime a) (asset_width a) (asset_height a) (asset_duration a)
       (case asset_location a of
          None \<Rightarrow> None
        | Some l \<Rightarrow> Some (latitude l, longitude l))"

definition syncGalleryMetadata :: "os_env \<Rightarrow> string \<Rightarrow> app \<Rightarrow> app" where
  "syncGalleryMetadata env deviceId s =
     (let s1 = emit (Call GetMediaPermissions) s
      in case media_getPermissionsAsync env of
           Rejects \<Rightarrow> emit (ConsoleError ''Error syncing gallery metadata:'') s1
         | Resolves status \<Rightarrow>
             if status \<noteq> Granted then s1
             else
               let s2 = emit (Call GetAssets) s1
               in (case getAssetsAsync env of
                    Rejects \<Rightarrow> emit (ConsoleError ''Error syncing gallery metadata:'') s2
                  | Resolves assets \<Rightarrow>
                      let mediaItems = map to_media_item assets;
                          body = MediaBatch deviceId mediaItems;
                          s3 = emit (HttpPost ''/api/media/batch'' body) s2
                      in if axios_post env ''/api/media/batch'' body
                         then emit (ConsoleLogCount ''Media metadata synced:''
                                 (length mediaItems)) s3
                         else emit (ConsoleError ''Error syncing gallery metadata:'') s3))"

definition location_body :: "string \<Rightarrow> coords \<Rightarrow> payload" where
  "location_body deviceId c =
     LocationSample deviceId (latitude c) (longitude c) (accuracy c) (speed c) (heading c)"

definition syncCurrentLocation :: "os_env \<Rightarrow> string \<Rightarrow> app \<Rightarrow> app" where
  "syncCurrentLocation env deviceId s =
     (let s1 = emit (Call GetCurrentPosition) s
      in case getCurrentPositionAsync env of
           Rejects \<Rightarrow> emit (ConsoleError ''Error syncing location:'') s1
         | Resolves location \<Rightarrow>
             let body = location_body deviceId location;
                 s2 = emit (HttpPost ''/api/locations'' body) s1
             in if axios_post env ''/api/locations'' body
                then emit (ConsoleLog ''Location synced'') s2
                else emit (ConsoleError ''Error syncing location:'') s2)"

subsection \<open>The sync pass\<close>

text \<open>
  \<^verbatim>\<open>syncAllData\<close> returns no value. Each domain sync catches whatever is thrown inside
  it, the read of the device id is taken to resolve, and neither \<^verbatim>\<open>setLastSync\<close> nor
  \<^verbatim>\<open>Alert.alert\<close> throws, so the \<^verbatim>\<open>catch\<close> branch of \<^verbatim>\<open>syncAllData\<close> (the alert
  \<open>Failed to sync some data\<close>) is never entered and has no branch below.
\<close>

definition syncAllData :: "os_env \<Rightarrow> app \<Rightarrow> app" where
  "syncAllData env s =
     (case storage s ''device_id'' of
        None \<Rightarrow> s
      | Some deviceId \<Rightarrow>
          if deviceId = [] then s
          else
            let s1 = syncContacts env deviceId s;
                s2 = syncGalleryMetadata env deviceId s1;
                s3 = syncCurrentLocation env deviceId s2;
                s4 = s3\<lparr>lastSync := Some (date_now env)\<rparr>
            in emit (Alert ''Success'' ''All data synced successfully!'') s4)"

subsection \<open>Permissions and the tracking task\<close>

definition permissions_error :: "app \<Rightarrow> bool \<times> app" where
  "permissions_error s = (False, emit (ConsoleError ''Error requesting permissions:'') s)"

definition requestPermissions :: "os_env \<Rightarrow> app \<Rightarrow> bool \<times> app" where
  "requestPermissions env s =
     (let s1 = emit (Call RequestForegroundPermissions) s
      in case requestForegroundPermissionsAsync env of
           Rejects \<Rightarrow> permissions_error s1
         | Resolves locationStatus \<Rightarrow>
             if locationStatus \<noteq> Granted
             then (False, emit (Alert ''Permission Denied''
                            ''Location permission is required for tracking.'') s1)
             else
               let s2 = emit (Call RequestBackgroundPermissions) s1
               in (case requestBackgroundPermissionsAsync env of
                     Rejects \<Rightarrow> permissions_error s2
                   | Resolves backgroundStatus \<Rightarrow>
                       if backgroundStatus \<noteq> Granted
                       then (False, emit (Alert ''Background Permission''
                          ''Background location permission is required for continuous tracking.'')
                          s2)
                       else
                         let s3 = emit (Call RequestContactsPermissions) s2
                         in (case contacts_requestPermissionsAsync env of
                               Rejects \<Rightarrow> permissions_error s3
                             | Resolves contactsStatus \<Rightarrow>
                                 let s4 = (if contactsStatus \<noteq> Granted
                                           then emit (Alert ''Permission Denied''
                                                  ''Contacts permission is required.'') s3
                                           else s3);
                                     s5 = emit (Call RequestMediaPermissions) s4
                                 in (case media_requestPermissionsAsync env of
                                       Rejects \<Rightarrow> permissions_error s5
                                     | Resolves mediaStatus \<Rightarrow>
                                         let s6 = (if mediaStatus \<noteq> Granted
                                                   then emit (Alert ''Permission Denied''
                                                     ''Media library permission is required.'') s5
                                                   else s5)
                                         in (True, s6\<lparr>locationEnabled := True\<rparr>)))))"

text \<open>
  \<^verbatim>\<open>Location.startLocationUpdatesAsync\<close> registers the task when it resolves and leaves the
  registry as it was when it rejects.
\<close>

definition startTracking :: "os_env \<Rightarrow> app \<Rightarrow> app" where
  "startTracking env s =
     (case requestPermissions env s of
        (hasPermissions, s1) \<Rightarrow>
          if \<not> hasPermissions then s1
          else
            let s2 = emit (Call StartLocationUpdates) s1
            in (case startLocationUpdatesAsync env of
                  Rejects \<Rightarrow>
                    emit (Alert ''Error'' ''Failed to start location tracking.'')
                      (emit (ConsoleError ''Error starting tracking:'') s2)
                | Resolves u \<Rightarrow>
                    let s3 = s2\<lparr>task_registered := True, isTracking := True\<rparr>;
                        s4 = emit (Alert ''Tracking Started''
                               ''Location tracking is now active in the background.'') s3
                    in syncAllData env s4))"

text \<open>\<^verbatim>\<open>checkTrackingStatus\<close>: the status is read from the OS task registry.\<close>

definition checkTrackingStatus :: "app \<Rightarrow> app" where
  "checkTrackingStatus s =
     (emit (Call IsTaskRegistered) s)\<lparr>isTracking := task_registered s\<rparr>"

text \<open>
  \<^verbatim>\<open>stopTracking\<close>: the task is deregistered when \<^verbatim>\<open>stopLocationUpdatesAsync\<close> resolves;
  when it rejects the \<^verbatim>\<open>catch\<close> logs the error and the rest of the \<^verbatim>\<open>try\<close> is skipped.
\<close>

definition stopTracking :: "os_env \<Rightarrow> app \<Rightarrow> app" where
  "stopTracking env s =
     (let s1 = emit (Call IsTaskRegistered) s;
          stopped = (\<lambda>t. emit (Alert ''Tracking Stopped'' ''Location tracking has been stopped.'')
                           (t\<lparr>isTracking := False\<rparr>))
      in if task_registered s
         then (let s2 = emit (Call StopLocationUpdates) s1
               in (case stopLocationUpdatesAsync env of
                     Rejects \<Rightarrow> emit (ConsoleError ''Error stopping tracking:'') s2
                   | Resolves u \<Rightarrow> stopped (s2\<lparr>task_registered := False\<rparr>)))
         else stopped s1)"

text \<open>
  The confirmed logout of the child screen (\<^verbatim>\<open>stopTracking\<close>, \<^verbatim>\<open>AsyncStorage.clear\<close>,
  \<^verbatim>\<open>router.replace('/')\<close>) and of the parent dashboard (the last two).
\<close>

definition parent_logout :: "app \<Rightarrow> app" where
  "parent_logout s = emit (RouterReplace ''/'') (s\<lparr>storage := Map.empty\<rparr>)"

definition handleLogout :: "os_env \<Rightarrow> app \<Rightarrow> app" where
  "handleLogout env s = parent_logout (stopTracking env s)"

subsection \<open>The background task handler\<close>

text \<open>
  The handler receives \<^verbatim>\<open>{data, error}\<close>; \<^verbatim>\<open>data\<close>, when present, holds the list
  \<^verbatim>\<open>locations\<close> of fixes. An empty list makes \<^verbatim>\<open>location.coords\<close> throw inside the
  \<^verbatim>\<open>try\<close>, after the device id has been read.
\<close>

definition background_task :: "os_env \<Rightarrow> coords list option \<Rightarrow> bool \<Rightarrow> app \<Rightarrow> app" where
  "background_task env data error s =
     (if error then emit (ConsoleError ''Background location error:'') s
      else case data of
             None \<Rightarrow> s
           | Some locations \<Rightarrow>
               (case storage s ''device_id'' of
                  None \<Rightarrow> s
                | Some deviceId \<Rightarrow>
                    if deviceId = [] then s
                    else (case locations of
                            [] \<Rightarrow> emit (ConsoleError ''Error sending background location:'') s
                          | location # rest \<Rightarrow>
                              let body = location_body deviceId location;
                                  s1 = emit (HttpPost ''/api/locations'' body) s
                              in if axios_post env ''/api/locations'' body
                                 then emit (ConsoleLog ''Background location update sent'') s1
                                 else emit (ConsoleError
                                        ''Error sending background location:'') s1)))"

section \<open>Device setup (registration screen)\<close>

datatype device_mode = Parent | Child

definition mode_str :: "device_mode \<Rightarrow> string" where
  "mode_str m = (case m of Parent \<Rightarrow> ''parent'' | Child \<Rightarrow> ''child'')"

text \<open>
  \<^verbatim>\<open>String.prototype.trim\<close> removes white space and line terminators at both ends. Among
  the code units below 256 these are tab, line feed, vertical tab, form feed, carriage
  return, space and the no-break space U+00A0.
\<close>

definition is_space :: "char \<Rightarrow> bool" where
  "is_space c =
     ((of_char c :: nat) = 32 \<or> (of_char c :: nat) = 160 \<or>
      (9 \<le> (of_char c :: nat) \<and> (of_char c :: nat) \<le> 13))"

definition trim :: "string \<Rightarrow> string" where
  "trim d = rev (dropWhile is_space (rev (dropWhile is_space d)))"

text \<open>Decimal digits of a number, as the template literal prints \<^verbatim>\<open>Date.now()\<close>.\<close>

fun digits10 :: "nat \<Rightarrow> string" where
  "digits10 n =
     (if n < 10 then [char_of (48 + n)]
      else digits10 (n div 10) @ [char_of (48 + n mod 10)])"

declare digits10.simps [simp del]

text \<open>
  The collaborators of the registration: the clock, the random suffix
  (\<^verbatim>\<open>Math.random().toString(36).substr(2, 9)\<close>, base-36 text), the backend, whose answer
  to the registration request is a rejection or a response with its \<^verbatim>\<open>ok\<close> flag, and
  the key-value store, whose \<^verbatim>\<open>getItem\<close> and \<^verbatim>\<open>setItem\<close> on a key resolve or reject. A
  rejected \<^verbatim>\<open>setItem\<close> leaves the store as it was.
\<close>

record setup_env =
  now_ms :: nat
  random_suffix :: string
  fetch_register :: "registration \<Rightarrow> bool promise"
  getItem_resolves :: "string \<Rightarrow> bool"
  setItem_resolves :: "string \<Rightarrow> bool"

record setup_form =
  deviceName :: string
  parentDeviceId :: string
  selectedMode :: "device_mode option"

text \<open>\<^verbatim>\<open>`device_${Date.now()}_${Math.random().toString(36).substr(2, 9)}`\<close>\<close>

definition new_device_id :: "setup_env \<Rightarrow> string" where
  "new_device_id env = ''device_'' @ digits10 (now_ms env) @ ''_'' @ random_suffix env"

definition setItem :: "string \<Rightarrow> string \<Rightarrow> app \<Rightarrow> app" where
  "setItem k v s = s\<lparr>storage := (storage s)(k \<mapsto> v)\<rparr>"

text \<open>The \<^verbatim>\<open>catch\<close> and \<^verbatim>\<open>finally\<close> blocks of \<^verbatim>\<open>handleRegister\<close>.\<close>

definition register_failed :: "app \<Rightarrow> app" where
  "register_failed s =
     (emit (Alert ''Error''
        ''Failed to register device. Please check the Parent Device ID and try again.'')
        (emit (ConsoleError ''Registration error:'') s))\<lparr>registering := False\<rparr>"

text \<open>
  Every awaited call inside the \<^verbatim>\<open>try\<close> can throw: the read of \<^verbatim>\<open>device_id\<close>, its write
  when a new id is generated, the request, and the writes of \<^verbatim>\<open>device_mode\<close>,
  \<^verbatim>\<open>device_name\<close> and \<^verbatim>\<open>parent_device_id\<close>, each awaited on its own.
\<close>

definition handleRegister :: "setup_env \<Rightarrow> setup_form \<Rightarrow> app \<Rightarrow> app" where
  "handleRegister env form s =
     (case selectedMode form of
        None \<Rightarrow> emit (Alert ''Error'' ''Please select Parent or Child mode'') s
      | Some mode \<Rightarrow>
          if trim (deviceName form) = []
          then emit (Alert ''Error'' ''Please enter a device name'') s
          else if mode = Child \<and> trim (parentDeviceId form) = []
          then emit (Alert ''Error'' ''Please enter Parent Device ID to connect'') s
          else
            let s0 = s\<lparr>registering := True\<rparr>
            in if \<not> getItem_resolves env ''device_id'' then register_failed s0
               else
                 let stored = storage s0 ''device_id'';
                     deviceId = or_else stored (new_device_id env)
                 in if \<not> truthy_str stored \<and> \<not> setItem_resolves env ''device_id''
                    then register_failed s0
                    else
                      let s1 = (if truthy_str stored then s0
                                else setItem ''device_id'' deviceId s0);
                          body = Registration deviceId (deviceName form) (mode_str mode)
                                   (if mode = Child then Some (trim (parentDeviceId form))
                                    else None);
                          s2 = emit (Fetch ''/api/devices/register'' body) s1
                      in (case fetch_register env body of
                            Rejects \<Rightarrow> register_failed s2
                          | Resolves ok \<Rightarrow>
                              if \<not> ok then register_failed s2
                              else if \<not> setItem_resolves env ''device_mode''
                              then register_failed s2
                              else
                                let s3 = setItem ''device_mode'' (mode_str mode) s2
                                in if \<not> setItem_resolves env ''device_name''
                                   then register_failed s3
                                   else
                                     let s4 = setItem ''device_name'' (deviceName form) s3
                                     in if mode = Child \<and>
                                           \<not> setItem_resolves env ''parent_device_id''
                                        then register_failed s4
                                        else
                                          let s5 = (if mode = Child
                                                    then setItem ''parent_device_id''
                                                           (trim (parentDeviceId form)) s4
                                                    else s4);
                                              s6 = emit (RouterReplace
                                                     (if mode = Parent
                                                      then ''/parent/dashboard''
                                                      else ''/child/tracking'')) s5
                                          in s6\<lparr>registering := False\<rparr>))"

section \<open>Parent gallery\<close>

text \<open>
  A media item as the backend returns it. Numbers come from JSON, so they are finite;
  a finite number is falsy exactly when it is zero, and the sign of \<^verbatim>\<open>timeB - timeA\<close> is
  the sign of the difference of the two reals.
\<close>

record gallery_item =
  media_id :: string
  filename :: string
  media_type :: string
  creation_time :: "real option"
  width :: "real option"
  height :: "real option"
  duration :: "real option"
  location_latitude :: "real option"
  location_longitude :: "real option"

datatype sort_mode = ByDate | ByLocation

definition truthy_num :: "real option \<Rightarrow> bool" where
  "truthy_num v = (case v of None \<Rightarrow> False | Some x \<Rightarrow> x \<noteq> 0)"

text \<open>\<^verbatim>\<open>a.creation_time || 0\<close>\<close>

definition time_of :: "gallery_item \<Rightarrow> real" where
  "time_of a = (case creation_time a of None \<Rightarrow> 0 | Some t \<Rightarrow> if t = 0 then 0 else t)"

text \<open>
  \<^verbatim>\<open>[...media].sort((a, b) => timeB - timeA)\<close> is a stable sort by descending time:
  insertion sort on the negated key. The other view is \<^verbatim>\<open>[...media].filter(...)\<close>.
\<close>

definition getSortedMedia :: "sort_mode \<Rightarrow> gallery_item list \<Rightarrow> gallery_item list" where
  "getSortedMedia sortBy media =
     (if sortBy = ByDate then sort_key (\<lambda>a. - time_of a) media
      else filter (\<lambda>item. truthy_num (location_latitude item) \<and>
                          truthy_num (location_longitude item)) media)"

section \<open>Observations on a trace\<close>

text \<open>The upload requests, the console errors and the alerts of a trace, in order.\<close>

fun posts :: "event list \<Rightarrow> (string \<times> payload) list" where
  "posts [] = []"
| "posts (HttpPost url body # es) = (url, body) # posts es"
| "posts (e # es) = posts es"

fun console_errors :: "event list \<Rightarrow> string list" where
  "console_errors [] = []"
| "console_errors (ConsoleError m # es) = m # console_errors es"
| "console_errors (e # es) = console_errors es"

fun alerts :: "event list \<Rightarrow> (string \<times> string) list" where
  "alerts [] = []"
| "alerts (Alert t m # es) = (t, m) # alerts es"
| "alerts (e # es) = alerts es"

fun requests :: "event list \<Rightarrow> registration list" where
  "requests [] = []"
| "requests (Fetch url body # es) = body # requests es"
| "requests (e # es) = requests es"

fun os_calls :: "event list \<Rightarrow> os_call list" where
  "os_calls [] = []"
| "os_calls (Call c # es) = c # os_calls es"
| "os_calls (e # es) = os_calls es"


text \<open>A device on which nothing has happened yet, and the events a step adds to it.\<close>

definition idle :: app where
  "idle = \<lparr>storage = Map.empty, task_registered = False, events = [],
            locationEnabled = False, isTracking = False, lastSync = None,
            registering = False\<rparr>"

definition domain_events :: "(app \<Rightarrow> app) \<Rightarrow> event list" where
  "domain_events f = events (f idle)"

text \<open>
  What a domain uploads, and whether something is thrown inside it, read off the answers
  of that domain's own collaborators.
\<close>

definition contacts_upload :: "os_env \<Rightarrow> string \<Rightarrow> payload list" where
  "contacts_upload env d =
     (if contacts_getPermissionsAsync env = Resolves Granted
      then (case getContactsAsync env of
              Rejects \<Rightarrow> []
            | Resolves data \<Rightarrow> [ContactsBatch d (map to_wire_contact data)])
      else [])"

definition media_upload :: "os_env \<Rightarrow> string \<Rightarrow> payload list" where
  "media_upload env d =
     (if media_getPermissionsAsync env = Resolves Granted
      then (case getAssetsAsync env of
              Rejects \<Rightarrow> []
            | Resolves assets \<Rightarrow> [MediaBatch d (map to_media_item assets)])
      else [])"

definition location_upload :: "os_env \<Rightarrow> string \<Rightarrow> payload list" where
  "location_upload env d =
     (case getCurrentPositionAsync env of
        Rejects \<Rightarrow> []
      | Resolves location \<Rightarrow> [location_body d location])"

definition contacts_throws :: "os_env \<Rightarrow> string \<Rightarrow> bool" where
  "contacts_throws env d =
     (contacts_getPermissionsAsync env = Rejects \<or>
      contacts_getPermissionsAsync env = Resolves Granted \<and>
        (getContactsAsync env = Rejects \<or>
         \<not> list_all (axios_post env ''/api/contacts/batch'') (contacts_upload env d)))"

definition media_throws :: "os_env \<Rightarrow> string \<Rightarrow> bool" where
  "media_throws env d =
     (media_getPermissionsAsync env = Rejects \<or>
      media_getPermissionsAsync env = Resolves Granted \<and>
        (getAssetsAsync env = Rejects \<or>
         \<not> list_all (axios_post env ''/api/media/batch'') (media_upload env d)))"

definition location_throws :: "os_env \<Rightarrow> string \<Rightarrow> bool" where
  "location_throws env d =
     (getCurrentPositionAsync env = Rejects \<or>
      \<not> list_all (axios_post env ''/api/locations'') (location_upload env d))"

text \<open>
  What the registration screen is about to do, read off the form, the store and the
  collaborators: whether the form passes the three checks, the device id the request
  carries (the stored one, or a new one when none is stored), the body of the request,
  whether the request is sent (the form is valid, the read of the id resolves and a new
  id, if one is needed, is stored), and whether the backend accepts it.
\<close>

definition valid_form :: "setup_form \<Rightarrow> bool" where
  "valid_form form =
     (trim (deviceName form) \<noteq> [] \<and>
      (selectedMode form = Some Parent \<or>
       selectedMode form = Some Child \<and> trim (parentDeviceId form) \<noteq> []))"

definition device_id_for :: "setup_env \<Rightarrow> app \<Rightarrow> string" where
  "device_id_for env s = or_else (storage s ''device_id'') (new_device_id env)"

definition registration_body :: "setup_env \<Rightarrow> setup_form \<Rightarrow> app \<Rightarrow> registration" where
  "registration_body env form s =
     Registration (device_id_for env s) (deviceName form)
       (case selectedMode form of None \<Rightarrow> [] | Some m \<Rightarrow> mode_str m)
       (if selectedMode form = Some Child then Some (trim (parentDeviceId form)) else None)"

definition request_sent :: "setup_env \<Rightarrow> setup_form \<Rightarrow> app \<Rightarrow> bool" where
  "request_sent env form s =
     (valid_form form \<and> getItem_resolves env ''device_id'' \<and>
      (truthy_str (storage s ''device_id'') \<or> setItem_resolves env ''device_id''))"



text \<open>
  The devices the program can be in: it starts with an empty store, and each step is one
  of the operations above, run against any answers of the collaborators.
\<close>

inductive reachable :: "app \<Rightarrow> bool" where
  reachable_idle: "reachable idle"
| reachable_register:
    "reachable s \<Longrightarrow> ascii_only (random_suffix env) \<Longrightarrow> reachable (handleRegister env form s)"
| reachable_start: "reachable s \<Longrightarrow> reachable (startTracking oenv s)"
| reachable_stop: "reachable s \<Longrightarrow> reachable (stopTracking oenv s)"
| reachable_sync: "reachable s \<Longrightarrow> reachable (syncAllData oenv s)"
| reachable_status: "reachable s \<Longrightarrow> reachable (checkTrackingStatus s)"
| reachable_fire: "reachable s \<Longrightarrow> reachable (background_task oenv data error s)"
| reachable_logout: "reachable s \<Longrightarrow> reachable (handleLogout oenv s)"
| reachable_parent_logout: "reachable s \<Longrightarrow> reachable (parent_logout s)"

section \<open>Example devices and environments\<close>

definition contact_ann :: os_contact where
  "contact_ann = \<lparr>contact_id = ''1'', contact_name = Some ''Ann'',
     phoneNumbers = Some [Some ''555-0100'', None], emails = Some [Some ''ann@example.org'']\<rparr>"

definition contact_nameless :: os_contact where
  "contact_nameless = \<lparr>contact_id = ''2'', contact_name = None,
     phoneNumbers = None, emails = Some []\<rparr>"

definition contact_bob :: os_contact where
  "contact_bob = \<lparr>contact_id = ''3'', contact_name = Some ''Bob'',
     phoneNumbers = Some [Some ''555-0101'', Some ''555-0102''], emails = None\<rparr>"

definition here :: coords where
  "here = \<lparr>latitude = 48, longitude = 11, accuracy = Some 5, speed = None, heading = None\<rparr>"

definition photo :: asset where
  "photo = \<lparr>asset_id = ''a1'', asset_filename = ''IMG_1.jpg'', mediaType = ''photo'',
     creationTime = 1000, modificationTime = 1000, asset_width = 640, asset_height = 480,
     asset_duration = 0, asset_location = Some here\<rparr>"

definition env_all_ok :: os_env where
  "env_all_ok = \<lparr>requestForegroundPermissionsAsync = Resolves Granted,
     requestBackgroundPermissionsAsync = Resolves Granted,
     contacts_requestPermissionsAsync = Resolves Granted,
     media_requestPermissionsAsync = Resolves Granted,
     startLocationUpdatesAsync = Resolves (),
     stopLocationUpdatesAsync = Resolves (),
     contacts_getPermissionsAsync = Resolves Granted,
     getContactsAsync = Resolves [contact_ann, contact_nameless, contact_bob],
     media_getPermissionsAsync = Resolves Granted,
     getAssetsAsync = Resolves [photo],
     getCurrentPositionAsync = Resolves here,
     axios_post = (\<lambda>url body. True),
     date_now = 1700000000000\<rparr>"

definition env_contacts_down :: os_env where
  "env_contacts_down = env_all_ok\<lparr>axios_post := (\<lambda>url body. url \<noteq> ''/api/contacts/batch'')\<rparr>"

definition env_registration_refused :: os_env where
  "env_registration_refused = env_all_ok\<lparr>startLocationUpdatesAsync := Rejects\<rparr>"

definition env_background_denied :: os_env where
  "env_background_denied = env_all_ok\<lparr>requestBackgroundPermissionsAsync := Resolves Denied\<rparr>"

definition env_best_effort_denied :: os_env where
  "env_best_effort_denied =
     env_all_ok\<lparr>contacts_requestPermissionsAsync := Resolves Denied,
                media_requestPermissionsAsync := Resolves Denied,
                contacts_getPermissionsAsync := Resolves Denied,
                media_getPermissionsAsync := Resolves Undetermined\<rparr>"

definition app_paired :: app where
  "app_paired = idle\<lparr>storage := [''device_id'' \<mapsto> ''device_1_k'']\<rparr>"


definition backend_down :: setup_env where
  "backend_down = \<lparr>now_ms = 1700000000000, random_suffix = ''abc123xyz'',
     fetch_register = (\<lambda>r. Rejects),
     getItem_resolves = (\<lambda>k. True), setItem_resolves = (\<lambda>k. True)\<rparr>"

definition store_rejects_name :: setup_env where
  "store_rejects_name = \<lparr>now_ms = 1700000000000, random_suffix = ''abc123xyz'',
     fetch_register = (\<lambda>r. Resolves True),
     getItem_resolves = (\<lambda>k. True), setItem_resolves = (\<lambda>k. k \<noteq> ''device_name'')\<rparr>"

definition child_form :: setup_form where
  "child_form = \<lparr>deviceName = ''Pixel'', parentDeviceId = '' device_1_k '',
     selectedMode = Some Child\<rparr>"

definition item_tagged :: gallery_item where
  "item_tagged = \<lparr>media_id = ''m1'', filename = ''a.jpg'', media_type = ''photo'',
     creation_time = Some 100, width = None, height = None, duration = None,
     location_latitude = Some 48, location_longitude = Some 11\<rparr>"

definition item_equator :: gallery_item where
  "item_equator = \<lparr>media_id = ''m2'', filename = ''b.jpg'', media_type = ''photo'',
     creation_time = Some 300, width = None, height = None, duration = None,
     location_latitude = Some 0, location_longitude = Some 11\<rparr>"

definition item_undated :: gallery_item where
  "item_undated = \<lparr>media_id = ''m3'', filename = ''c.mp4'', media_type = ''video'',
     creation_time = None, width = None, height = None, duration = None,
     location_latitude = Some 1, location_longitude = Some 2\<rparr>"

section \<open>Properties of the pairing code\<close>

lemma length_toUpperCase: "length (toUpperCase d) = length d"
  by (simp add: toUpperCase_def)

lemma slice_neg6: "slice (- 6) d = drop (length d - 6) d"
proof -
  have "nat (max (int (length d) + - 6) 0) = length d - 6"
    by linarith
  then show ?thesis
    by (simp add: slice_def Let_def)
qed

lemma pairing_code_present:
  "d \<noteq> [] \<Longrightarrow> pairing_code (Some d) = toUpperCase (drop (length d - 6) d)"
  by (simp add: pairing_code_def slice_neg6)

lemma length_pairing_code_present:
  "d \<noteq> [] \<Longrightarrow> length (pairing_code (Some d)) = min 6 (length d)"
  by (simp add: pairing_code_present length_toUpperCase)

text \<open>
  C3. From the identifier \<open>device_1700000000_abc123xyz\<close> the rule (last six characters,
  upper-cased) derives \<open>123XYZ\<close>.
\<close>

theorem pairing_code_scenario:
  "pairing_code (Some ''device_1700000000_abc123xyz'') = ''123XYZ''"
  by code_simp

text \<open>C3 as the scenario is worded: the derived code is not the literal \<open>BC123X\<close>.\<close>

theorem pairing_code_scenario_counterexample:
  "pairing_code (Some ''device_1700000000_abc123xyz'') \<noteq> ''BC123X''"
  by code_simp

section \<open>Traces of the sync pass\<close>

lemma emit_fields [simp]:
  "events (emit e s) = events s @ [e]"
  "storage (emit e s) = storage s"
  "task_registered (emit e s) = task_registered s"
  "isTracking (emit e s) = isTracking s"
  "locationEnabled (emit e s) = locationEnabled s"
  "lastSync (emit e s) = lastSync s"
  "registering (emit e s) = registering s"
  by (simp_all add: emit_def)

lemma syncContacts_appends:
  "syncContacts env d s = s\<lparr>events := events s @ domain_events (syncContacts env d)\<rparr>"
  by (simp add: syncContacts_def domain_events_def Let_def emit_def idle_def
      split: promise.splits)


lemma syncGalleryMetadata_appends:
  "syncGalleryMetadata env d s = s\<lparr>events := events s @ domain_events (syncGalleryMetadata env d)\<rparr>"
  by (simp add: syncGalleryMetadata_def domain_events_def Let_def emit_def idle_def
      split: promise.splits)

lemma syncCurrentLocation_appends:
  "syncCurrentLocation env d s = s\<lparr>events := events s @ domain_events (syncCurrentLocation env d)\<rparr>"
  by (simp add: syncCurrentLocation_def domain_events_def Let_def emit_def idle_def
      split: promise.splits)

lemma posts_append: "posts (xs @ ys) = posts xs @ posts ys"
  by (induction xs rule: posts.induct) simp_all
lemma console_errors_append: "console_errors (xs @ ys) = console_errors xs @ console_errors ys"
  by (induction xs rule: console_errors.induct) simp_all
lemma alerts_append: "alerts (xs @ ys) = alerts xs @ alerts ys"
  by (induction xs rule: alerts.induct) simp_all
lemma requests_append: "requests (xs @ ys) = requests xs @ requests ys"
  by (induction xs rule: requests.induct) simp_all
lemma os_calls_append: "os_calls (xs @ ys) = os_calls xs @ os_calls ys"
  by (induction xs rule: os_calls.induct) simp_all

lemma syncAllData_unfold:
  assumes "storage s ''device_id'' = Some d" "d \<noteq> []"
  shows "syncAllData env s = emit (Alert ''Success'' ''All data synced successfully!'')
     ((syncCurrentLocation env d (syncGalleryMetadata env d (syncContacts env d s)))\<lparr>lastSync := Some (date_now env)\<rparr>)"
  using assms by (simp add: syncAllData_def Let_def)

lemma syncAllData_events:
  assumes "storage s ''device_id'' = Some d" "d \<noteq> []"
  shows "events (syncAllData env s) =
     events s @ domain_events (syncContacts env d) @ domain_events (syncGalleryMetadata env d)
       @ domain_events (syncCurrentLocation env d) @ [Alert ''Success'' ''All data synced successfully!'']"
proof -
  have c: "events (syncContacts env d s) = events s @ domain_events (syncContacts env d)"
    by (subst syncContacts_appends) simp
  have m: "events (syncGalleryMetadata env d (syncContacts env d s)) =
      events (syncContacts env d s) @ domain_events (syncGalleryMetadata env d)"
    by (subst syncGalleryMetadata_appends) simp
  have l: "events (syncCurrentLocation env d (syncGalleryMetadata env d (syncContacts env d s))) =
      events (syncGalleryMetadata env d (syncContacts env d s)) @ domain_events (syncCurrentLocation env d)"
    by (subst syncCurrentLocation_appends) simp
  show ?thesis
    by (simp add: syncAllData_unfold [OF assms] c m l)
qed

lemma contacts_domain_posts:
  "posts (domain_events (syncContacts env d)) =
     map (Pair ''/api/contacts/batch'') (contacts_upload env d)"
  by (cases "contacts_getPermissionsAsync env"; cases "getContactsAsync env")
     (simp_all add: syncContacts_def domain_events_def idle_def contacts_upload_def Let_def emit_def)

lemma contacts_domain_errors:
  "console_errors (domain_events (syncContacts env d)) =
     (if contacts_throws env d then [''Error syncing contacts:''] else [])"
  by (cases "contacts_getPermissionsAsync env"; cases "getContactsAsync env")
     (simp_all add: syncContacts_def domain_events_def idle_def contacts_upload_def
        contacts_throws_def Let_def emit_def)

lemma media_domain_posts:
  "posts (domain_events (syncGalleryMetadata env d)) =
     map (Pair ''/api/media/batch'') (media_upload env d)"
  by (cases "media_getPermissionsAsync env"; cases "getAssetsAsync env")
     (simp_all add: syncGalleryMetadata_def domain_events_def idle_def media_upload_def Let_def emit_def)

lemma media_domain_errors:
  "console_errors (domain_events (syncGalleryMetadata env d)) =
     (if media_throws env d then [''Error syncing gallery metadata:''] else [])"
  by (cases "media_getPermissionsAsync env"; cases "getAssetsAsync env")
     (simp_all add: syncGalleryMetadata_def domain_events_def idle_def media_upload_def
        media_throws_def Let_def emit_def)

lemma location_domain_posts:
  "posts (domain_events (syncCurrentLocation env d)) =
     map (Pair ''/api/locations'') (location_upload env d)"
  by (cases "getCurrentPositionAsync env")
     (simp_all add: syncCurrentLocation_def domain_events_def idle_def location_upload_def Let_def emit_def)

lemma location_domain_errors:
  "console_errors (domain_events (syncCurrentLocation env d)) =
     (if location_throws env d then [''Error syncing location:''] else [])"
  by (cases "getCurrentPositionAsync env")
     (simp_all add: syncCurrentLocation_def domain_events_def idle_def location_upload_def
        location_throws_def Let_def emit_def)

lemma app_paired_id: "storage app_paired ''device_id'' = Some ''device_1_k''"
  by (simp add: app_paired_def idle_def)

lemmas example_defs =
  env_contacts_down_def env_all_ok_def env_best_effort_denied_def
  env_registration_refused_def env_background_denied_def
  contact_ann_def contact_nameless_def contact_bob_def photo_def here_def

lemmas wire_defs =
  to_wire_contact_def to_media_item_def location_body_def or_else_def flatten_field_def

section \<open>Properties of the sync pass\<close>

text \<open>
  Each domain uploads what its own collaborators give it and logs what is thrown inside
  it, whatever happens in the other two.
\<close>

lemma syncAllData_domains_isolated:
  assumes "storage s ''device_id'' = Some d" and "d \<noteq> []"
  shows "posts (events (syncAllData env s)) =
           posts (events s)
           @ map (Pair ''/api/contacts/batch'') (contacts_upload env d)
           @ map (Pair ''/api/media/batch'') (media_upload env d)
           @ map (Pair ''/api/locations'') (location_upload env d) \<and>
         console_errors (events (syncAllData env s)) =
           console_errors (events s)
           @ (if contacts_throws env d then [''Error syncing contacts:''] else [])
           @ (if media_throws env d then [''Error syncing gallery metadata:''] else [])
           @ (if location_throws env d then [''Error syncing location:''] else [])"
proof -
  note ev = syncAllData_events [OF assms, of env]
  have p: "posts (events (syncAllData env s)) =
           posts (events s)
           @ map (Pair ''/api/contacts/batch'') (contacts_upload env d)
           @ map (Pair ''/api/media/batch'') (media_upload env d)
           @ map (Pair ''/api/locations'') (location_upload env d)"
    unfolding ev posts_append contacts_domain_posts media_domain_posts location_domain_posts
    by simp
  have e: "console_errors (events (syncAllData env s)) =
           console_errors (events s)
           @ (if contacts_throws env d then [''Error syncing contacts:''] else [])
           @ (if media_throws env d then [''Error syncing gallery metadata:''] else [])
           @ (if location_throws env d then [''Error syncing location:''] else [])"
    unfolding ev console_errors_append contacts_domain_errors media_domain_errors
      location_domain_errors
    by simp
  from p e show ?thesis ..
qed

text \<open>
  C1. The sync pass run with a device id persisted and the contacts upload rejected: the
  media and location uploads are made all the same and the contacts failure is caught
  and logged inside the contacts sync, but the pass returns no value and the one alert
  it shows is the success alert, so the failed domain is not reported.
\<close>

theorem syncAllData_failed_domain_reported_as_success:
  "posts (events (syncAllData env_contacts_down app_paired)) =
     [(''/api/contacts/batch'', ContactsBatch ''device_1_k''
        [WireContact ''1'' ''Ann'' [''555-0100'', ''''] [''ann@example.org''],
         WireContact ''2'' ''Unknown'' [] [],
         WireContact ''3'' ''Bob'' [''555-0101'', ''555-0102''] []]),
      (''/api/media/batch'', MediaBatch ''device_1_k''
        [MediaItem ''a1'' ''IMG_1.jpg'' ''photo'' 1000 1000 640 480 0 (Some (48, 11))]),
      (''/api/locations'', LocationSample ''device_1_k'' 48 11 (Some 5) None None)] \<and>
   console_errors (events (syncAllData env_contacts_down app_paired)) =
     [''Error syncing contacts:''] \<and>
   alerts (events (syncAllData env_contacts_down app_paired)) =
     [(''Success'', ''All data synced successfully!'')]"
  by (simp add: syncAllData_def app_paired_def idle_def syncContacts_def
        syncGalleryMetadata_def syncCurrentLocation_def Let_def emit_def
        example_defs wire_defs)

text \<open>
  C9. Within one sync pass the events of the contacts sync come first, then those of the
  media sync, then those of the location sync, each block being what that domain does on
  its own and none of them empty; the success alert follows the last block.
\<close>

theorem syncAllData_sequential:
  assumes "storage s ''device_id'' = Some d" and "d \<noteq> []"
  shows "events (syncAllData env s) =
           events s
           @ domain_events (syncContacts env d)
           @ domain_events (syncGalleryMetadata env d)
           @ domain_events (syncCurrentLocation env d)
           @ [Alert ''Success'' ''All data synced successfully!''] \<and>
         os_calls (domain_events (syncContacts env d)) \<noteq> [] \<and>
         os_calls (domain_events (syncGalleryMetadata env d)) \<noteq> [] \<and>
         os_calls (domain_events (syncCurrentLocation env d)) \<noteq> []"
proof -
  have c: "os_calls (domain_events (syncContacts env d)) \<noteq> []"
    by (cases "contacts_getPermissionsAsync env"; cases "getContactsAsync env")
       (simp_all add: syncContacts_def domain_events_def idle_def Let_def emit_def)
  have m: "os_calls (domain_events (syncGalleryMetadata env d)) \<noteq> []"
    by (cases "media_getPermissionsAsync env"; cases "getAssetsAsync env")
       (simp_all add: syncGalleryMetadata_def domain_events_def idle_def Let_def emit_def)
  have l: "os_calls (domain_events (syncCurrentLocation env d)) \<noteq> []"
    by (cases "getCurrentPositionAsync env")
       (simp_all add: syncCurrentLocation_def domain_events_def idle_def Let_def emit_def)
  from syncAllData_events [OF assms, of env] c m l show ?thesis by blast
qed

theorem syncAllData_sequential_witness:
  "storage app_paired ''device_id'' = Some ''device_1_k'' \<and>
   events (syncAllData env_all_ok app_paired) =
     [Call GetContactsPermissions, Call GetContacts,
      HttpPost ''/api/contacts/batch'' (ContactsBatch ''device_1_k''
        [WireContact ''1'' ''Ann'' [''555-0100'', ''''] [''ann@example.org''],
         WireContact ''2'' ''Unknown'' [] [],
         WireContact ''3'' ''Bob'' [''555-0101'', ''555-0102''] []]),
      ConsoleLogCount ''Contacts synced:'' 3,
      Call GetMediaPermissions, Call GetAssets,
      HttpPost ''/api/media/batch'' (MediaBatch ''device_1_k''
        [MediaItem ''a1'' ''IMG_1.jpg'' ''photo'' 1000 1000 640 480 0 (Some (48, 11))]),
      ConsoleLogCount ''Media metadata synced:'' 1,
      Call GetCurrentPosition,
      HttpPost ''/api/locations'' (LocationSample ''device_1_k'' 48 11 (Some 5) None None),
      ConsoleLog ''Location synced'',
      Alert ''Success'' ''All data synced successfully!'']"
proof -
  have c: "domain_events (syncContacts env_all_ok ''device_1_k'') =
     [Call GetContactsPermissions, Call GetContacts,
      HttpPost ''/api/contacts/batch'' (ContactsBatch ''device_1_k''
        [WireContact ''1'' ''Ann'' [''555-0100'', ''''] [''ann@example.org''],
         WireContact ''2'' ''Unknown'' [] [],
         WireContact ''3'' ''Bob'' [''555-0101'', ''555-0102''] []]),
      ConsoleLogCount ''Contacts synced:'' 3]"
    by (simp add: domain_events_def idle_def syncContacts_def Let_def emit_def
          example_defs wire_defs)
  have m: "domain_events (syncGalleryMetadata env_all_ok ''device_1_k'') =
     [Call GetMediaPermissions, Call GetAssets,
      HttpPost ''/api/media/batch'' (MediaBatch ''device_1_k''
        [MediaItem ''a1'' ''IMG_1.jpg'' ''photo'' 1000 1000 640 480 0 (Some (48, 11))]),
      ConsoleLogCount ''Media metadata synced:'' 1]"
    by (simp add: domain_events_def idle_def syncGalleryMetadata_def Let_def emit_def
          example_defs wire_defs)
  have l: "domain_events (syncCurrentLocation env_all_ok ''device_1_k'') =
     [Call GetCurrentPosition,
      HttpPost ''/api/locations'' (LocationSample ''device_1_k'' 48 11 (Some 5) None None),
      ConsoleLog ''Location synced'']"
    by (simp add: domain_events_def idle_def syncCurrentLocation_def Let_def emit_def
          example_defs wire_defs)
  have e: "events app_paired = []"
    by (simp add: app_paired_def idle_def)
  show ?thesis
    using syncAllData_sequential [OF app_paired_id, of env_all_ok]
    by (simp add: c m l e app_paired_id)
qed

text \<open>
  C7. With no device id persisted (absent or empty), the sync pass leaves the device as it
  was: no domain sync is attempted, nothing is uploaded, nothing is logged or alerted.
  The background handler, fired without an OS error, leaves the device as it was too, and
  in no case uploads or alerts.
\<close>
theorem no_device_id_is_noop:
  assumes "\<not> truthy_str (storage s ''device_id'')"
  shows "syncAllData env s = s \<and>
         background_task env data False s = s \<and>
         posts (events (background_task env data error s)) = posts (events s) \<and>
         alerts (events (background_task env data error s)) = alerts (events s)"
  using assms
  by (auto simp add: syncAllData_def background_task_def truthy_str_def posts_append alerts_append
      split: option.splits)

theorem no_device_id_is_noop_witness:
  "\<not> truthy_str (storage idle ''device_id'') \<and>
   syncAllData env_all_ok idle = idle \<and>
   background_task env_all_ok (Some [here]) False idle = idle"
proof -
  have h: "\<not> truthy_str (storage idle ''device_id'')"
    by (simp add: truthy_str_def idle_def)
  from no_device_id_is_noop [OF h, of env_all_ok "Some [here]" False] h show ?thesis by simp
qed

lemma to_wire_contact_fields:
  "to_wire_contact c =
     WireContact (contact_id c)
       (case contact_name c of None \<Rightarrow> ''Unknown'' | Some n \<Rightarrow> if n = [] then ''Unknown'' else n)
       (case phoneNumbers c of None \<Rightarrow> []
        | Some ps \<Rightarrow> map (\<lambda>p. case p of None \<Rightarrow> [] | Some n \<Rightarrow> n) ps)
       (case emails c of None \<Rightarrow> []
        | Some es \<Rightarrow> map (\<lambda>e. case e of None \<Rightarrow> [] | Some a \<Rightarrow> a) es)"
  by (auto simp add: to_wire_contact_def or_else_def flatten_field_def split: option.splits)

text \<open>
  C8. With the contacts permission granted and the contact list read, the contacts sync
  sends exactly one request to the batch endpoint. Its body holds one record per contact,
  in the order of the list: the id, the name or \<open>Unknown\<close> when the name is absent (or
  empty), and the numbers and addresses as lists of strings in their order, an absent
  entry giving the empty string and an absent field the empty list.
\<close>

theorem syncContacts_uploads_one_batch:
  assumes "contacts_getPermissionsAsync env = Resolves Granted"
    and "getContactsAsync env = Resolves data"
  shows "posts (events (syncContacts env d s)) =
           posts (events s) @ [(''/api/contacts/batch'', ContactsBatch d (map to_wire_contact data))] \<and>
         length (map to_wire_contact data) = length data \<and>
         (\<forall>i < length data. map to_wire_contact data ! i =
            WireContact (contact_id (data ! i))
              (case contact_name (data ! i) of None \<Rightarrow> ''Unknown''
               | Some n \<Rightarrow> if n = [] then ''Unknown'' else n)
              (case phoneNumbers (data ! i) of None \<Rightarrow> []
               | Some ps \<Rightarrow> map (\<lambda>p. case p of None \<Rightarrow> [] | Some n \<Rightarrow> n) ps)
              (case emails (data ! i) of None \<Rightarrow> []
               | Some es \<Rightarrow> map (\<lambda>e. case e of None \<Rightarrow> [] | Some a \<Rightarrow> a) es))"
proof -
  have "posts (events (syncContacts env d s)) =
      posts (events s) @ posts (domain_events (syncContacts env d))"
    by (subst syncContacts_appends) (simp add: posts_append)
  moreover have "contacts_upload env d = [ContactsBatch d (map to_wire_contact data)]"
    using assms by (simp add: contacts_upload_def)
  ultimately have p: "posts (events (syncContacts env d s)) =
           posts (events s) @ [(''/api/contacts/batch'', ContactsBatch d (map to_wire_contact data))]"
    by (simp add: contacts_domain_posts)
  have f: "\<forall>i < length data. map to_wire_contact data ! i =
            WireContact (contact_id (data ! i))
              (case contact_name (data ! i) of None \<Rightarrow> ''Unknown''
               | Some n \<Rightarrow> if n = [] then ''Unknown'' else n)
              (case phoneNumbers (data ! i) of None \<Rightarrow> []
               | Some ps \<Rightarrow> map (\<lambda>p. case p of None \<Rightarrow> [] | Some n \<Rightarrow> n) ps)
              (case emails (data ! i) of None \<Rightarrow> []
               | Some es \<Rightarrow> map (\<lambda>e. case e of None \<Rightarrow> [] | Some a \<Rightarrow> a) es)"
    by (simp add: to_wire_contact_fields)
  from p f show ?thesis by simp
qed

theorem syncContacts_uploads_one_batch_witness:
  "contacts_getPermissionsAsync env_all_ok = Resolves Granted \<and>
   getContactsAsync env_all_ok = Resolves [contact_ann, contact_nameless, contact_bob] \<and>
   posts (events (syncContacts env_all_ok ''device_1_k'' idle)) =
     [(''/api/contacts/batch'', ContactsBatch ''device_1_k''
        [WireContact ''1'' ''Ann'' [''555-0100'', ''''] [''ann@example.org''],
         WireContact ''2'' ''Unknown'' [] [],
         WireContact ''3'' ''Bob'' [''555-0101'', ''555-0102''] []])]"
proof -
  have p: "contacts_getPermissionsAsync env_all_ok = Resolves Granted"
    by (simp add: env_all_ok_def)
  have g: "getContactsAsync env_all_ok = Resolves [contact_ann, contact_nameless, contact_bob]"
    by (simp add: env_all_ok_def)
  have w: "map to_wire_contact [contact_ann, contact_nameless, contact_bob] =
        [WireContact ''1'' ''Ann'' [''555-0100'', ''''] [''ann@example.org''],
         WireContact ''2'' ''Unknown'' [] [],
         WireContact ''3'' ''Bob'' [''555-0101'', ''555-0102''] []]"
    by (simp add: example_defs wire_defs)
  have e: "events idle = []" by (simp add: idle_def)
  from syncContacts_uploads_one_batch [OF p g, of "''device_1_k''" idle] p g w e
  show ?thesis by simp
qed

section \<open>Properties of permissions and tracking\<close>

lemma domain_sync_task_registered [simp]:
  "task_registered (syncContacts env d s) = task_registered s"
  "task_registered (syncGalleryMetadata env d s) = task_registered s"
  "task_registered (syncCurrentLocation env d s) = task_registered s"
  by (subst syncContacts_appends, simp, subst syncGalleryMetadata_appends, simp,
      subst syncCurrentLocation_appends, simp)

lemma syncAllData_task_registered [simp]:
  "task_registered (syncAllData env s) = task_registered s"
  by (simp add: syncAllData_def Let_def split: option.splits)

lemma requestPermissions_result:
  "fst (requestPermissions env s) =
     (requestForegroundPermissionsAsync env = Resolves Granted \<and>
      requestBackgroundPermissionsAsync env = Resolves Granted \<and>
      contacts_requestPermissionsAsync env \<noteq> Rejects \<and>
      media_requestPermissionsAsync env \<noteq> Rejects)"
  by (cases "requestForegroundPermissionsAsync env"; cases "requestBackgroundPermissionsAsync env";
      cases "contacts_requestPermissionsAsync env"; cases "media_requestPermissionsAsync env")
     (simp_all add: requestPermissions_def permissions_error_def Let_def)

lemma requestPermissions_task_registered [simp]:
  "task_registered (snd (requestPermissions env s)) = task_registered s"
  by (cases "requestForegroundPermissionsAsync env"; cases "requestBackgroundPermissionsAsync env";
      cases "contacts_requestPermissionsAsync env"; cases "media_requestPermissionsAsync env")
     (simp_all add: requestPermissions_def permissions_error_def Let_def)

lemma startTracking_task_registered:
  "task_registered (startTracking env s) =
     (task_registered s \<or>
      fst (requestPermissions env s) \<and> startLocationUpdatesAsync env \<noteq> Rejects)"
proof (cases "requestPermissions env s")
  case (Pair h s1)
  then have t: "task_registered s1 = task_registered s"
    using requestPermissions_task_registered [of env s] by simp
  show ?thesis
    using Pair t
    by (cases "startLocationUpdatesAsync env") (simp_all add: startTracking_def Let_def)
qed

lemma checkTrackingStatus_isTracking [simp]:
  "isTracking (checkTrackingStatus s) = task_registered s"
  by (simp add: checkTrackingStatus_def)

lemma startTracking_foreground_refused:
  assumes "requestForegroundPermissionsAsync env = Resolves st" and "st \<noteq> Granted"
  shows "startTracking env s =
     emit (Alert ''Permission Denied'' ''Location permission is required for tracking.'')
       (emit (Call RequestForegroundPermissions) s)"
  using assms by (simp add: startTracking_def requestPermissions_def Let_def)

lemma startTracking_background_refused:
  assumes "requestForegroundPermissionsAsync env = Resolves Granted"
    and "requestBackgroundPermissionsAsync env = Resolves st" and "st \<noteq> Granted"
  shows "startTracking env s =
     emit (Alert ''Background Permission''
             ''Background location permission is required for continuous tracking.'')
       (emit (Call RequestBackgroundPermissions) (emit (Call RequestForegroundPermissions) s))"
  using assms by (simp add: startTracking_def requestPermissions_def Let_def)

text \<open>
  C2. Starting and then reading the status shows tracking active exactly when the task
  was registered before, or both location permissions were granted, neither of the two
  further permission requests threw and the OS accepted the registration. When the
  foreground permission is refused, the request and the alert are all that happens; when
  the background permission is refused, the two requests and the alert are; in both
  cases the task registry is left as it was.
\<close>

theorem startTracking_then_status:
  "isTracking (checkTrackingStatus (startTracking env s)) =
     (task_registered s \<or>
      requestForegroundPermissionsAsync env = Resolves Granted \<and>
      requestBackgroundPermissionsAsync env = Resolves Granted \<and>
      contacts_requestPermissionsAsync env \<noteq> Rejects \<and>
      media_requestPermissionsAsync env \<noteq> Rejects \<and>
      startLocationUpdatesAsync env \<noteq> Rejects) \<and>
   (\<forall>st. requestForegroundPermissionsAsync env = Resolves st \<longrightarrow> st \<noteq> Granted \<longrightarrow>
      startTracking env s =
        emit (Alert ''Permission Denied'' ''Location permission is required for tracking.'')
          (emit (Call RequestForegroundPermissions) s)) \<and>
   (\<forall>st. requestForegroundPermissionsAsync env = Resolves Granted \<longrightarrow>
      requestBackgroundPermissionsAsync env = Resolves st \<longrightarrow> st \<noteq> Granted \<longrightarrow>
      startTracking env s =
        emit (Alert ''Background Permission''
                ''Background location permission is required for continuous tracking.'')
          (emit (Call RequestBackgroundPermissions)
             (emit (Call RequestForegroundPermissions) s)))"
proof -
  have a: "isTracking (checkTrackingStatus (startTracking env s)) =
     (task_registered s \<or>
      requestForegroundPermissionsAsync env = Resolves Granted \<and>
      requestBackgroundPermissionsAsync env = Resolves Granted \<and>
      contacts_requestPermissionsAsync env \<noteq> Rejects \<and>
      media_requestPermissionsAsync env \<noteq> Rejects \<and>
      startLocationUpdatesAsync env \<noteq> Rejects)"
    by (simp add: startTracking_task_registered requestPermissions_result)
  from a startTracking_foreground_refused [of env _ s]
    startTracking_background_refused [of env _ s]
  show ?thesis by blast
qed

theorem startTracking_then_status_witness:
  "\<not> task_registered idle \<and>
   isTracking (checkTrackingStatus (startTracking env_all_ok idle)) \<and>
   \<not> isTracking (checkTrackingStatus (startTracking env_background_denied idle)) \<and>
   events (startTracking env_background_denied idle) =
     [Call RequestForegroundPermissions, Call RequestBackgroundPermissions,
      Alert ''Background Permission''
        ''Background location permission is required for continuous tracking.'']"
proof -
  have i: "\<not> task_registered idle" "events idle = []"
    by (simp_all add: idle_def)
  have ok: "requestForegroundPermissionsAsync env_all_ok = Resolves Granted"
    "requestBackgroundPermissionsAsync env_all_ok = Resolves Granted"
    "contacts_requestPermissionsAsync env_all_ok \<noteq> Rejects"
    "media_requestPermissionsAsync env_all_ok \<noteq> Rejects"
    "startLocationUpdatesAsync env_all_ok \<noteq> Rejects"
    by (simp_all add: env_all_ok_def)
  have bd: "requestForegroundPermissionsAsync env_background_denied = Resolves Granted"
    "requestBackgroundPermissionsAsync env_background_denied = Resolves Denied"
    by (simp_all add: env_background_denied_def env_all_ok_def)
  from startTracking_then_status [of env_all_ok idle]
    startTracking_then_status [of env_background_denied idle] i ok bd
  show ?thesis by simp
qed

text \<open>
  C2 as worded (active if and only if both location permissions were granted): with both
  granted and the registration refused by the OS, the status is not active.
\<close>

theorem startTracking_registration_refused_counterexample:
  "requestForegroundPermissionsAsync env_registration_refused = Resolves Granted \<and>
   requestBackgroundPermissionsAsync env_registration_refused = Resolves Granted \<and>
   \<not> isTracking (checkTrackingStatus (startTracking env_registration_refused idle))"
  by (simp add: startTracking_task_registered requestPermissions_result
        env_registration_refused_def env_all_ok_def idle_def)

text \<open>
  C6. With both location permissions granted, any answer to the contacts and media
  permission requests lets the permission step succeed, and tracking is registered
  unless the OS refuses the registration. At sync time a domain whose permission is not
  granted only queries the permission: no read, no upload, no console error, no alert;
  with both domains so skipped, the pass consists of the two queries, the location sync
  and the success alert.
\<close>

theorem best_effort_permissions_absorbed:
  "(requestForegroundPermissionsAsync env = Resolves Granted \<longrightarrow>
    requestBackgroundPermissionsAsync env = Resolves Granted \<longrightarrow>
    contacts_requestPermissionsAsync env = Resolves cs \<longrightarrow>
    media_requestPermissionsAsync env = Resolves ms \<longrightarrow>
      fst (requestPermissions env s) \<and>
      (startLocationUpdatesAsync env \<noteq> Rejects \<longrightarrow> task_registered (startTracking env s))) \<and>
   (contacts_getPermissionsAsync env = Resolves st \<longrightarrow> st \<noteq> Granted \<longrightarrow>
      syncContacts env d s = emit (Call GetContactsPermissions) s) \<and>
   (media_getPermissionsAsync env = Resolves st' \<longrightarrow> st' \<noteq> Granted \<longrightarrow>
      syncGalleryMetadata env d s = emit (Call GetMediaPermissions) s) \<and>
   (storage s ''device_id'' = Some d \<longrightarrow> d \<noteq> [] \<longrightarrow>
    contacts_getPermissionsAsync env = Resolves st \<longrightarrow> st \<noteq> Granted \<longrightarrow>
    media_getPermissionsAsync env = Resolves st' \<longrightarrow> st' \<noteq> Granted \<longrightarrow>
      events (syncAllData env s) =
        events s @ [Call GetContactsPermissions, Call GetMediaPermissions]
        @ domain_events (syncCurrentLocation env d)
        @ [Alert ''Success'' ''All data synced successfully!''])"
proof -
  have a: "fst (requestPermissions env s) \<and>
      (startLocationUpdatesAsync env \<noteq> Rejects \<longrightarrow> task_registered (startTracking env s))"
    if "requestForegroundPermissionsAsync env = Resolves Granted"
      "requestBackgroundPermissionsAsync env = Resolves Granted"
      "contacts_requestPermissionsAsync env = Resolves cs"
      "media_requestPermissionsAsync env = Resolves ms"
    using that by (simp add: startTracking_task_registered requestPermissions_result)
  have c: "syncContacts env d s = emit (Call GetContactsPermissions) s"
    if "contacts_getPermissionsAsync env = Resolves st" "st \<noteq> Granted" for s
    using that by (simp add: syncContacts_def Let_def)
  have m: "syncGalleryMetadata env d s = emit (Call GetMediaPermissions) s"
    if "media_getPermissionsAsync env = Resolves st'" "st' \<noteq> Granted" for s
    using that by (simp add: syncGalleryMetadata_def Let_def)
  have p: "events (syncAllData env s) =
        events s @ [Call GetContactsPermissions, Call GetMediaPermissions]
        @ domain_events (syncCurrentLocation env d)
        @ [Alert ''Success'' ''All data synced successfully!'']"
    if "storage s ''device_id'' = Some d" "d \<noteq> []"
      "contacts_getPermissionsAsync env = Resolves st" "st \<noteq> Granted"
      "media_getPermissionsAsync env = Resolves st'" "st' \<noteq> Granted"
  proof -
    have "domain_events (syncContacts env d) = [Call GetContactsPermissions]"
      unfolding domain_events_def c [OF that(3,4)] by (simp add: idle_def)
    moreover have "domain_events (syncGalleryMetadata env d) = [Call GetMediaPermissions]"
      unfolding domain_events_def m [OF that(5,6)] by (simp add: idle_def)
    ultimately show ?thesis
      using syncAllData_events [OF that(1,2), of env] by simp
  qed
  from a c m p show ?thesis by blast
qed

theorem best_effort_permissions_absorbed_witness:
  "fst (requestPermissions env_best_effort_denied app_paired) \<and>
   task_registered (startTracking env_best_effort_denied app_paired) \<and>
   events (syncAllData env_best_effort_denied app_paired) =
     [Call GetContactsPermissions, Call GetMediaPermissions, Call GetCurrentPosition,
      HttpPost ''/api/locations'' (LocationSample ''device_1_k'' 48 11 (Some 5) None None),
      ConsoleLog ''Location synced'',
      Alert ''Success'' ''All data synced successfully!'']"
proof -
  have r: "requestForegroundPermissionsAsync env_best_effort_denied = Resolves Granted"
    "requestBackgroundPermissionsAsync env_best_effort_denied = Resolves Granted"
    "contacts_requestPermissionsAsync env_best_effort_denied = Resolves Denied"
    "media_requestPermissionsAsync env_best_effort_denied = Resolves Denied"
    "startLocationUpdatesAsync env_best_effort_denied \<noteq> Rejects"
    "contacts_getPermissionsAsync env_best_effort_denied = Resolves Denied"
    "media_getPermissionsAsync env_best_effort_denied = Resolves Undetermined"
    by (simp_all add: env_best_effort_denied_def env_all_ok_def)
  have l: "domain_events (syncCurrentLocation env_best_effort_denied ''device_1_k'') =
     [Call GetCurrentPosition,
      HttpPost ''/api/locations'' (LocationSample ''device_1_k'' 48 11 (Some 5) None None),
      ConsoleLog ''Location synced'']"
    by (simp add: domain_events_def idle_def syncCurrentLocation_def Let_def emit_def
          example_defs wire_defs)
  have e: "events app_paired = []"
    by (simp add: app_paired_def idle_def)
  from best_effort_permissions_absorbed [where env = env_best_effort_denied and cs = Denied
      and ms = Denied and s = app_paired and st = Denied and st' = Undetermined
      and d = "''device_1_k''"] r l e app_paired_id
  show ?thesis by simp
qed

section \<open>Properties of device setup\<close>

lemma register_failed_fields [simp]:
  "storage (register_failed s) = storage s"
  "events (register_failed s) = events s @ [ConsoleError ''Registration error:'',
     Alert ''Error'' ''Failed to register device. Please check the Parent Device ID and try again.'']"
  by (simp_all add: register_failed_def)

lemma setItem_fields [simp]:
  "storage (setItem k v s) = (storage s)(k \<mapsto> v)"
  "events (setItem k v s) = events s"
  by (simp_all add: setItem_def)



lemma device_id_for_stored:
  "truthy_str (storage s ''device_id'') \<Longrightarrow> storage s ''device_id'' = Some (device_id_for env s)"
  by (simp add: device_id_for_def or_else_def truthy_str_def split: option.splits)

lemma handleRegister_invalid:
  "\<not> valid_form form \<Longrightarrow> handleRegister env form s =
     emit (Alert ''Error''
       (case selectedMode form of
          None \<Rightarrow> ''Please select Parent or Child mode''
        | Some m \<Rightarrow> if trim (deviceName form) = [] then ''Please enter a device name''
                    else ''Please enter Parent Device ID to connect'')) s"
  by (cases "selectedMode form"; cases "the (selectedMode form)")
     (auto simp add: valid_form_def handleRegister_def)

lemma handleRegister_not_sent:
  assumes "\<not> request_sent env form s"
  shows "storage (handleRegister env form s) = storage s \<and>
         requests (events (handleRegister env form s)) = requests (events s)"
proof (cases "valid_form form")
  case False
  then show ?thesis
    by (simp add: handleRegister_invalid requests_append)
next
  case True
  then obtain m where m: "selectedMode form = Some m"
    by (auto simp add: valid_form_def)
  from True assms have
    "\<not> getItem_resolves env ''device_id'' \<or>
     \<not> truthy_str (storage s ''device_id'') \<and> \<not> setItem_resolves env ''device_id''"
    by (auto simp add: request_sent_def)
  with True m show ?thesis
    by (cases m) (auto simp add: valid_form_def handleRegister_def Let_def requests_append)
qed

text \<open>The state in which the request is sent.\<close>

lemma handleRegister_sent:
  assumes "request_sent env form s"
  shows "storage (handleRegister env form s) ''device_id'' = Some (device_id_for env s) \<and>
         requests (events (handleRegister env form s)) =
           requests (events s) @ [registration_body env form s]"
proof -
  from assms have v: "valid_form form" and g: "getItem_resolves env ''device_id''"
    and w: "truthy_str (storage s ''device_id'') \<or> setItem_resolves env ''device_id''"
    by (simp_all add: request_sent_def)
  obtain m where m: "selectedMode form = Some m"
    using v by (auto simp add: valid_form_def)
  have id: "storage s ''device_id'' = Some (device_id_for env s)"
    if "truthy_str (storage s ''device_id'')"
    using device_id_for_stored [OF that, of env] .
  show ?thesis
    using v g w m id
    by (cases m; cases "fetch_register env (registration_body env form s)")
       (auto simp add: valid_form_def handleRegister_def Let_def registration_body_def
          device_id_for_def mode_str_def requests_append)
qed




lemma char_of_digits:
  "char_of (48::nat) = CHR ''0''" "char_of (49::nat) = CHR ''1''"
  "char_of (50::nat) = CHR ''2''" "char_of (51::nat) = CHR ''3''"
  "char_of (52::nat) = CHR ''4''" "char_of (53::nat) = CHR ''5''"
  "char_of (54::nat) = CHR ''6''" "char_of (55::nat) = CHR ''7''"
  "char_of (56::nat) = CHR ''8''" "char_of (57::nat) = CHR ''9''"
  by code_simp+

lemma ex_new_id: "new_device_id backend_down = ''device_1700000000000_abc123xyz''"
  by (simp add: new_device_id_def backend_down_def digits10.simps char_of_digits)

lemma ex_new_id_store: "new_device_id store_rejects_name = ''device_1700000000000_abc123xyz''"
  by (simp add: new_device_id_def store_rejects_name_def digits10.simps char_of_digits)

lemma ex_trim: "trim '' device_1_k '' = ''device_1_k''" "trim ''Pixel'' = ''Pixel''"
  by code_simp+

lemma ex_valid: "valid_form child_form"
  by (simp add: valid_form_def child_form_def ex_trim)

lemma ex_first_id: "device_id_for backend_down idle = ''device_1700000000000_abc123xyz''"
  by (simp add: device_id_for_def idle_def or_else_def ex_new_id)

lemma ex_first_sent: "request_sent backend_down child_form idle"
  by (simp add: request_sent_def ex_valid backend_down_def)




section \<open>Identifiers the program holds\<close>

lemma domain_sync_storage [simp]:
  "storage (syncContacts env d s) = storage s"
  "storage (syncGalleryMetadata env d s) = storage s"
  "storage (syncCurrentLocation env d s) = storage s"
  by (subst syncContacts_appends, simp, subst syncGalleryMetadata_appends, simp,
      subst syncCurrentLocation_appends, simp)

lemma syncAllData_storage [simp]: "storage (syncAllData env s) = storage s"
  by (simp add: syncAllData_def Let_def split: option.splits)

lemma requestPermissions_storage [simp]:
  "storage (snd (requestPermissions env s)) = storage s"
  by (cases "requestForegroundPermissionsAsync env"; cases "requestBackgroundPermissionsAsync env";
      cases "contacts_requestPermissionsAsync env"; cases "media_requestPermissionsAsync env")
     (simp_all add: requestPermissions_def permissions_error_def Let_def)

lemma startTracking_storage [simp]: "storage (startTracking env s) = storage s"
proof (cases "requestPermissions env s")
  case (Pair h s1)
  then have t: "storage s1 = storage s"
    using requestPermissions_storage [of env s] by simp
  show ?thesis
    using Pair t
    by (cases "startLocationUpdatesAsync env") (simp_all add: startTracking_def Let_def)
qed

lemma stopTracking_storage [simp]: "storage (stopTracking env s) = storage s"
  by (cases "stopLocationUpdatesAsync env") (simp_all add: stopTracking_def Let_def)

lemma checkTrackingStatus_storage [simp]: "storage (checkTrackingStatus s) = storage s"
  by (simp add: checkTrackingStatus_def)

lemma background_task_storage [simp]: "storage (background_task env data error s) = storage s"
  by (simp add: background_task_def Let_def split: option.splits list.splits)

lemma logout_storage [simp]:
  "storage (parent_logout s) = Map.empty"
  "storage (handleLogout env s) = Map.empty"
  by (simp_all add: parent_logout_def handleLogout_def)

lemma ascii_only_append: "ascii_only (xs @ ys) = (ascii_only xs \<and> ascii_only ys)"
  by (simp add: ascii_only_def)

lemma ascii_only_digits10: "ascii_only (digits10 n)"
proof (induction n rule: digits10.induct)
  case (1 n)
  show ?case
  proof (cases "n < 10")
    case True
    then show ?thesis
      by (subst digits10.simps) (simp add: ascii_only_def)
  next
    case False
    have "n mod 10 < 10" by simp
    then have "(48 + n mod 10) mod 256 < 128" by simp
    with False 1 show ?thesis
      by (subst digits10.simps) (simp add: ascii_only_append, simp add: ascii_only_def)
  qed
qed

lemma new_device_id_shape:
  "ascii_only (random_suffix env) \<Longrightarrow>
     6 \<le> length (new_device_id env) \<and> ascii_only (new_device_id env)"
proof -
  assume a: "ascii_only (random_suffix env)"
  have p: "ascii_only ''device_''" "ascii_only ''_''"
    by (simp_all add: ascii_only_def)
  have "ascii_only (new_device_id env)"
    unfolding new_device_id_def ascii_only_append
    using a p ascii_only_digits10 [of "now_ms env"] by (intro conjI)
  moreover have "6 \<le> length (new_device_id env)"
    by (simp add: new_device_id_def)
  ultimately show ?thesis by (intro conjI)
qed

lemma handleRegister_device_id:
  "storage (handleRegister env form s) ''device_id'' = storage s ''device_id'' \<or>
   storage (handleRegister env form s) ''device_id'' = Some (new_device_id env)"
proof (cases "request_sent env form s")
  case False
  from handleRegister_not_sent [OF False] show ?thesis by simp
next
  case True
  show ?thesis
  proof (cases "truthy_str (storage s ''device_id'')")
    case t: True
    from handleRegister_sent [OF True] device_id_for_stored [OF t, of env]
    show ?thesis by simp
  next
    case f: False
    then have "device_id_for env s = new_device_id env"
      by (auto simp add: device_id_for_def or_else_def truthy_str_def split: option.splits)
    with handleRegister_sent [OF True] show ?thesis by simp
  qed
qed

lemma reachable_device_id:
  "reachable s \<Longrightarrow> storage s ''device_id'' = Some d \<Longrightarrow> 6 \<le> length d \<and> ascii_only d"
proof (induction arbitrary: d rule: reachable.induct)
  case reachable_idle
  then show ?case by (simp add: idle_def)
next
  case (reachable_register s env form)
  from handleRegister_device_id [of env form s] reachable_register
    new_device_id_shape [of env]
  show ?case by auto
qed simp_all

lemma pairing_code_six:
  "6 \<le> length d \<Longrightarrow> pairing_code (Some d) = toUpperCase (drop (length d - 6) d) \<and>
     length (pairing_code (Some d)) = 6"
proof -
  assume l: "6 \<le> length d"
  then have "d \<noteq> []" by auto
  with l pairing_code_present [of d] length_pairing_code_present [of d]
  show ?thesis by simp
qed

text \<open>
  C4. The code shown is a function of the stored identifier alone. For every identifier
  of at least six ASCII characters it is the last six characters upper-cased, six
  characters long. Every identifier setup generates is such an identifier, and so is
  every identifier in the store of a device the program can reach; an absent identifier
  gives \<open>000000\<close>. So the code shown always has six characters.
\<close>

theorem pairing_code_derivation:
  "snd (generatePairingCode store) = pairing_code (store ''device_id'') \<and>
   pairing_code None = ''000000'' \<and>
   (6 \<le> length d \<longrightarrow> ascii_only d \<longrightarrow>
      pairing_code (Some d) = toUpperCase (drop (length d - 6) d) \<and>
      length (pairing_code (Some d)) = 6) \<and>
   (ascii_only (random_suffix env) \<longrightarrow>
      6 \<le> length (new_device_id env) \<and> ascii_only (new_device_id env)) \<and>
   (reachable s \<longrightarrow>
      length (snd (generatePairingCode (storage s))) = 6 \<and>
      (\<forall>i. storage s ''device_id'' = Some i \<longrightarrow>
         6 \<le> length i \<and> ascii_only i \<and>
         snd (generatePairingCode (storage s)) = toUpperCase (drop (length i - 6) i)))"
proof -
  have store: "snd (generatePairingCode store) = pairing_code (store ''device_id'')" for store
    by (simp add: generatePairingCode_def Let_def)
  have absent: "pairing_code None = ''000000''"
    by (simp add: pairing_code_def)
  have r: "length (snd (generatePairingCode (storage s))) = 6 \<and>
      (\<forall>i. storage s ''device_id'' = Some i \<longrightarrow>
         6 \<le> length i \<and> ascii_only i \<and>
         snd (generatePairingCode (storage s)) = toUpperCase (drop (length i - 6) i))"
    if "reachable s"
  proof (cases "storage s ''device_id''")
    case None
    then show ?thesis by (simp add: store absent)
  next
    case (Some i)
    from reachable_device_id [OF that Some]
    have l: "6 \<le> length i" and a: "ascii_only i"
      by simp_all
    note c = pairing_code_six [OF l, THEN conjunct1]
    note n = pairing_code_six [OF l, THEN conjunct2]
    have g: "snd (generatePairingCode (storage s)) = pairing_code (Some i)"
      by (simp add: store Some)
    from l a c n Some show ?thesis
      unfolding g by auto
  qed
  from store absent pairing_code_six [of d] new_device_id_shape [of env] r
  show ?thesis by blast
qed

theorem pairing_code_derivation_witness:
  "reachable (handleRegister backend_down child_form idle) \<and>
   storage (handleRegister backend_down child_form idle) ''device_id'' =
     Some ''device_1700000000000_abc123xyz'' \<and>
   snd (generatePairingCode (storage (handleRegister backend_down child_form idle))) =
     ''123XYZ'' \<and>
   length (snd (generatePairingCode (storage (handleRegister backend_down child_form idle)))) = 6"
proof -
  let ?s1 = "handleRegister backend_down child_form idle"
  have a: "ascii_only (random_suffix backend_down)"
    by (simp add: backend_down_def ascii_only_def)
  have re: "reachable ?s1"
    by (rule reachable_register [OF reachable_idle a])
  have id: "storage ?s1 ''device_id'' = Some ''device_1700000000000_abc123xyz''"
    using handleRegister_sent [OF ex_first_sent] ex_first_id by simp
  have u: "toUpperCase (drop (length ''device_1700000000000_abc123xyz'' - 6)
              ''device_1700000000000_abc123xyz'') = ''123XYZ''"
    by code_simp
  note t = pairing_code_derivation [where s = ?s1, THEN conjunct2, THEN conjunct2,
      THEN conjunct2, THEN conjunct2, THEN mp, OF re]
  from t [THEN conjunct2, THEN spec, THEN mp, OF id] u
  have c: "snd (generatePairingCode (storage ?s1)) = ''123XYZ''"
    by simp
  from re id c t [THEN conjunct1] show ?thesis
    by (intro conjI)
qed

section \<open>Properties of the parent gallery\<close>

lemma time_of_eq: "time_of a = (case creation_time a of None \<Rightarrow> 0 | Some t \<Rightarrow> t)"
  by (simp add: time_of_def split: option.splits)

text \<open>
  C10. The location view is the snapshot filtered, in the snapshot's order, to the items
  whose latitude and longitude are both present and not zero; an item at latitude 0 or
  longitude 0 is not in it. The date view is a rearrangement of the snapshot in which
  creation times never increase, a missing creation time counting as 0.
\<close>

theorem getSortedMedia_views:
  "getSortedMedia ByLocation media =
     filter (\<lambda>item. (\<exists>la lo. location_latitude item = Some la \<and> la \<noteq> 0 \<and>
                              location_longitude item = Some lo \<and> lo \<noteq> 0)) media \<and>
   subseq (getSortedMedia ByLocation media) media \<and>
   (\<forall>item. location_latitude item = Some 0 \<or> location_longitude item = Some 0 \<longrightarrow>
      item \<notin> set (getSortedMedia ByLocation media)) \<and>
   mset (getSortedMedia ByDate media) = mset media \<and>
   sorted_wrt (\<lambda>a b. (case creation_time a of None \<Rightarrow> 0 | Some t \<Rightarrow> t) \<ge>
                      (case creation_time b of None \<Rightarrow> 0 | Some t \<Rightarrow> t))
     (getSortedMedia ByDate media)"
proof -
  have t: "truthy_num v = (\<exists>x. v = Some x \<and> x \<noteq> 0)" for v
    by (cases v) (simp_all add: truthy_num_def)
  have f: "getSortedMedia ByLocation media =
     filter (\<lambda>item. (\<exists>la lo. location_latitude item = Some la \<and> la \<noteq> 0 \<and>
                              location_longitude item = Some lo \<and> lo \<noteq> 0)) media"
  proof -
    have h: "(\<lambda>item. truthy_num (location_latitude item) \<and> truthy_num (location_longitude item)) =
          (\<lambda>item. \<exists>la lo. location_latitude item = Some la \<and> la \<noteq> 0 \<and>
                              location_longitude item = Some lo \<and> lo \<noteq> 0)"
      by (auto simp add: t fun_eq_iff)
    show ?thesis
      unfolding getSortedMedia_def by (subst h) simp
  qed
  have s: "subseq (getSortedMedia ByLocation media) media"
    by (simp add: getSortedMedia_def)
  have z: "\<forall>item. location_latitude item = Some 0 \<or> location_longitude item = Some 0 \<longrightarrow>
      item \<notin> set (getSortedMedia ByLocation media)"
    by (auto simp add: getSortedMedia_def truthy_num_def)
  have m: "mset (getSortedMedia ByDate media) = mset media"
    by (simp add: getSortedMedia_def)
  have "sorted (map (\<lambda>a. - time_of a) (getSortedMedia ByDate media))"
    by (simp add: getSortedMedia_def)
  then have "sorted_wrt (\<lambda>a b. - time_of a \<le> - time_of b) (getSortedMedia ByDate media)"
    by (simp add: sorted_map)
  then have d: "sorted_wrt (\<lambda>a b. (case creation_time a of None \<Rightarrow> 0 | Some t \<Rightarrow> t) \<ge>
                      (case creation_time b of None \<Rightarrow> 0 | Some t \<Rightarrow> t))
     (getSortedMedia ByDate media)"
    by (simp add: time_of_eq)
  from f s z m d show ?thesis by blast
qed

theorem getSortedMedia_views_witness:
  "location_latitude item_equator = Some 0 \<and>
   item_equator \<notin> set (getSortedMedia ByLocation [item_undated, item_equator, item_tagged]) \<and>
   getSortedMedia ByLocation [item_undated, item_equator, item_tagged] =
     [item_undated, item_tagged] \<and>
   getSortedMedia ByDate [item_tagged, item_equator, item_undated] =
     [item_equator, item_tagged, item_undated]"
proof -
  have z: "location_latitude item_equator = Some 0"
    by (simp add: item_equator_def)
  have l: "getSortedMedia ByLocation [item_undated, item_equator, item_tagged] =
     [item_undated, item_tagged]"
    by (simp add: getSortedMedia_def truthy_num_def item_tagged_def item_equator_def
          item_undated_def)
  have d: "getSortedMedia ByDate [item_tagged, item_equator, item_undated] =
     [item_equator, item_tagged, item_undated]"
    by (simp add: getSortedMedia_def time_of_def item_tagged_def item_equator_def
          item_undated_def)
  from getSortedMedia_views [of "[item_undated, item_equator, item_tagged]"] z l d
  show ?thesis by blast
qed

end
